theory Spec2Isabelle
  imports Main "HOL-Library.Word"
begin

section \<open>Editable notes: the handlers of the manuscript and of \<open>Lane.jsx\<close>\<close>

text \<open>
  The development embeds the JavaScript of
  \<^verbatim>\<open>manuscript/getting_started/04_editing_notes.md\<close> (the handlers of \<open>App\<close>, the
  \<open>Editable\<close> stub and the class component \<open>Note\<close>) and of
  \<^verbatim>\<open>kanban_app/app/components/Lane.jsx\<close> (\<open>addNote\<close>, \<open>edited\<close>).
\<close>

subsection \<open>JavaScript strings\<close>

text \<open>
  A JavaScript string is a sequence of UTF-16 code units. \<open>utf16\<close> writes an ASCII
  literal as such a sequence.
\<close>

type_synonym jsstring = "16 word list"

definition utf16 :: "string \<Rightarrow> jsstring" where
  "utf16 s = map of_char s"

text \<open>
  The code units that \<^verbatim>\<open>String.prototype.trim\<close> strips: ECMAScript's WhiteSpace (TAB, VT,
  FF, SP, NBSP, ZWNBSP and the space separators of Unicode) and LineTerminator (LF, CR,
  LS, PS).
\<close>

definition isWhiteSpace :: "16 word \<Rightarrow> bool" where
  "isWhiteSpace c \<longleftrightarrow>
     c \<in> {0x0009, 0x000A, 0x000B, 0x000C, 0x000D, 0x0020, 0x00A0, 0x1680,
          0x2028, 0x2029, 0x202F, 0x205F, 0x3000, 0xFEFF}
     \<or> (0x2000 \<le> c \<and> c \<le> 0x200A)"

definition trim :: "jsstring \<Rightarrow> jsstring" where
  "trim s = rev (dropWhile isWhiteSpace (rev (dropWhile isWhiteSpace s)))"

text \<open>A string is truthy in a condition exactly when it is not the empty string.\<close>

definition truthy :: "jsstring \<Rightarrow> bool" where
  "truthy s \<longleftrightarrow> s \<noteq> []"

subsection \<open>Notes and the handlers of \<open>App\<close>\<close>

text \<open>
  A note object \<^verbatim>\<open>{id, task, editing}\<close>. The identifier is compared with \<^verbatim>\<open>===\<close> only, so
  its type is left open; \<open>editing\<close> is read for its truthiness only (a note created
  without the field counts as \<open>False\<close>).
\<close>

record 'id note_obj =
  id_note :: 'id
  task :: jsstring
  editing :: bool

text \<open>
  Every handler below takes \<^verbatim>\<open>this.state.notes\<close> and returns the array it hands to
  \<^verbatim>\<open>setState\<close>. \<^verbatim>\<open>Array.prototype.map\<close> visits the notes in order and returns an array
  of the same length; the callback assigns to a field of the note it returns.

  Lines 210 to 220 (the call of \<^verbatim>\<open>console.log\<close> writes to the console and does not touch
  the notes):
  \<^verbatim>\<open>
  activateNoteEdit = (id) => {console.log('act', id);
    this.setState({
      notes: this.state.notes.map(note => {
        if(note.id === id) { note.editing = true; }
        return note;
      })
    });
  }\<close>
\<close>

definition activateNoteEdit :: "'id \<Rightarrow> 'id note_obj list \<Rightarrow> 'id note_obj list" where
  "activateNoteEdit i ns =
     map (\<lambda>n. if id_note n = i then n\<lparr>editing := True\<rparr> else n) ns"

text \<open>
  Lines 221 to 231, the \<open>editNote\<close> of the section that tracks the \<open>editing\<close> flag; it
  receives the task and does not use it:
  \<^verbatim>\<open>
  editNote = (id, task) => {
    this.setState({
      notes: this.state.notes.map(note => {
        if(note.id === id) { note.editing = false; }
        return note;
      })
    });
  }\<close>
\<close>

definition editNote_tracking :: "'id \<Rightarrow> jsstring \<Rightarrow> 'id note_obj list \<Rightarrow> 'id note_obj list" where
  "editNote_tracking i t ns =
     map (\<lambda>n. if id_note n = i then n\<lparr>editing := False\<rparr> else n) ns"

text \<open>
  Lines 383 to 398, the \<open>editNote\<close> that stores the new value. The early \<^verbatim>\<open>return\<close>
  leaves the state as it is:
  \<^verbatim>\<open>
  editNote = (id, task) => {
    // Don't modify if trying to set an empty value
    if(!task.trim()) { return; }
    const notes = this.state.notes.map(note => {
      if(note.id === id && task) { note.task = task; }
      return note;
    });
    this.setState({notes});
  };\<close>
\<close>

definition editNote :: "'id \<Rightarrow> jsstring \<Rightarrow> 'id note_obj list \<Rightarrow> 'id note_obj list" where
  "editNote i t ns =
     (if \<not> truthy (trim t) then ns
      else map (\<lambda>n. if id_note n = i \<and> truthy t then n\<lparr>task := t\<rparr> else n) ns)"

subsection \<open>The handlers of \<open>Lane\<close>\<close>

text \<open>
  \<open>Lane\<close> owns no collection: it calls the actions object it is given. The object is a
  parameter of the model, a record of its three methods over any store state \<open>'s\<close>.
\<close>

record ('id, 's) actions =
  create :: "jsstring \<Rightarrow> 's \<Rightarrow> 's"
  update :: "'id \<Rightarrow> jsstring \<Rightarrow> 's \<Rightarrow> 's"
  remove :: "'id \<Rightarrow> 's \<Rightarrow> 's"

text \<open>
  \<^verbatim>\<open>
  addNote() { this.actions.create('New note'); }
  edited(actions, id, value) {
    if(value) { actions.update(id, value); }
    else { actions.remove(id); }
  }\<close>
\<close>

definition addNote :: "('id, 's) actions \<Rightarrow> 's \<Rightarrow> 's" where
  "addNote acts = create acts (utf16 ''New note'')"

definition edited :: "('id, 's) actions \<Rightarrow> 'id \<Rightarrow> jsstring \<Rightarrow> 's \<Rightarrow> 's" where
  "edited acts i v = (if truthy v then update acts i v else remove acts i)"

text \<open>
  An actions object that only records the calls it receives, in order: the trace of
  what a handler dispatches.
\<close>

datatype 'id dispatch = Create jsstring | Update 'id jsstring | Remove 'id

definition recording :: "('id, 'id dispatch list) actions" where
  "recording =
     \<lparr>create = (\<lambda>t log. log @ [Create t]),
      update = (\<lambda>i t log. log @ [Update i t]),
      remove = (\<lambda>i log. log @ [Remove i])\<rparr>"

subsection \<open>Adding and removing\<close>

text \<open>
  Modelled from the spec: the Owner's \<open>add()\<close>. The body of \<open>App.addNote\<close> is elided in
  the manuscript and the store behind the actions of \<open>Lane\<close> is not among the sources.
  The spec: \<open>add()\<close> "appends a new Item with a freshly generated unique id, a default
  value, editing=false". The identifier that the external generator returns is the
  argument \<open>new_id\<close>.
\<close>

definition owner_add :: "'id \<Rightarrow> jsstring \<Rightarrow> 'id note_obj list \<Rightarrow> 'id note_obj list" where
  "owner_add new_id default_value ns =
     ns @ [\<lparr>id_note = new_id, task = default_value, editing = False\<rparr>]"

text \<open>
  Modelled from the spec: the Owner's \<open>remove(id)\<close>. The body of \<open>App.deleteNote\<close> is
  elided in the manuscript and the store behind the actions of \<open>Lane\<close> is not among the
  sources. The spec: \<open>remove(id)\<close> "removes item by id unconditionally".
\<close>

definition owner_remove :: "'id \<Rightarrow> 'id note_obj list \<Rightarrow> 'id note_obj list" where
  "owner_remove i ns = filter (\<lambda>n. id_note n \<noteq> i) ns"

subsection \<open>The \<open>Editable\<close> stub\<close>

text \<open>
  Lines 97 to 104, a function of its props with no state of its own:
  \<^verbatim>\<open>
  export default ({editing, value, onEdit, onValueClick, ...props}) => (
    <div {...props}>
      {editing ?
        <Edit value={value} onEdit={onEdit} /> :
        <Value value={value} onValueClick={onValueClick} />
      }
    </div>
  )\<close>
  The result is the element tree: a \<open>div\<close> with the remaining props and one child, the
  element of \<open>Edit\<close> or of \<open>Value\<close> with the props it is given. The callbacks and the
  remaining props are passed on untouched, so their types are left open.
\<close>

datatype ('e, 'v) child = Edit jsstring 'e | Value jsstring 'v

datatype ('p, 'e, 'v) element = Div 'p "('e, 'v) child"

definition Editable :: "bool \<Rightarrow> jsstring \<Rightarrow> 'e \<Rightarrow> 'v \<Rightarrow> 'p \<Rightarrow> ('p, 'e, 'v) element" where
  "Editable ed val on_edit on_value_click props =
     Div props (if ed then Edit val on_edit else Value val on_value_click)"

subsection \<open>The class component \<open>Note\<close>\<close>

text \<open>
  Lines 259 to 336. The component keeps \<^verbatim>\<open>this.state = {editing: false}\<close> and reads the
  props \<open>task\<close> and \<open>onEdit\<close>, the latter optional (\<^verbatim>\<open>if(this.props.onEdit)\<close>). A handler
  changes the state of the component and, through \<open>onEdit\<close>, whatever the callback acts
  on: the state \<open>'w\<close> of the surroundings. An event carries \<^verbatim>\<open>e.key\<close> (absent on a blur)
  and \<^verbatim>\<open>e.target.value\<close>.
\<close>

record note_state =
  editing_st :: bool

record 'w note_props =
  task_prop :: jsstring
  onEdit :: "(jsstring \<Rightarrow> 'w \<Rightarrow> 'w) option"

record event =
  key :: "jsstring option"
  target_value :: jsstring

text \<open>
  \<^verbatim>\<open>
  edit = () => { this.setState({editing: true}); };
  checkEnter = (e) => { if(e.key === 'Enter') { this.finishEdit(e); } };
  finishEdit = (e) => {
    const value = e.target.value;
    if(this.props.onEdit) {
      this.props.onEdit(value);
      this.setState({editing: false});
    }
  };\<close>
\<close>

definition edit :: "note_state \<times> 'w \<Rightarrow> note_state \<times> 'w" where
  "edit sw = ((fst sw)\<lparr>editing_st := True\<rparr>, snd sw)"

definition finishEdit :: "'w note_props \<Rightarrow> event \<Rightarrow> note_state \<times> 'w \<Rightarrow> note_state \<times> 'w" where
  "finishEdit props e sw =
     (let val = target_value e in
      case onEdit props of
        Some callback \<Rightarrow> ((fst sw)\<lparr>editing_st := False\<rparr>, callback val (snd sw))
      | None \<Rightarrow> sw)"

definition checkEnter :: "'w note_props \<Rightarrow> event \<Rightarrow> note_state \<times> 'w \<Rightarrow> note_state \<times> 'w" where
  "checkEnter props e sw =
     (if key e = Some (utf16 ''Enter'') then finishEdit props e sw else sw)"

text \<open>
  \<open>render\<close> returns the input with its two handlers while \<open>editing\<close> is set, and the
  clickable \<open>div\<close> otherwise:
  \<^verbatim>\<open>
  render() {
    if(this.state.editing) { return this.renderEdit(); }
    return this.renderNote();
  }
  renderEdit = () => {
    return <input type="text"
      ref={element => element ?
        element.selectionStart = this.props.task.length : null}
      autoFocus={true}
      defaultValue={this.props.task}
      onBlur={this.finishEdit}
      onKeyPress={this.checkEnter} />;
  };
  renderNote = () => {
    return <div onClick={this.edit}>{this.props.task}</div>;
  };\<close>
\<close>

datatype 'w view =
  Input jsstring nat
    "event \<Rightarrow> note_state \<times> 'w \<Rightarrow> note_state \<times> 'w"
    "event \<Rightarrow> note_state \<times> 'w \<Rightarrow> note_state \<times> 'w"
| Clickable "note_state \<times> 'w \<Rightarrow> note_state \<times> 'w" jsstring

definition renderEdit :: "'w note_props \<Rightarrow> 'w view" where
  "renderEdit props =
     Input (task_prop props) (length (task_prop props)) (finishEdit props) (checkEnter props)"

definition renderNote :: "'w note_props \<Rightarrow> 'w view" where
  "renderNote props = Clickable edit (task_prop props)"

definition render :: "'w note_props \<Rightarrow> note_state \<Rightarrow> 'w view" where
  "render props st = (if editing_st st then renderEdit props else renderNote props)"

text \<open>
  A user event reaches the handler that the element rendered for the current state
  attaches to it: the input has \<open>onBlur\<close> and \<open>onKeyPress\<close>, the \<open>div\<close> has \<open>onClick\<close>. An
  event that the rendered element has no handler for changes nothing. \<open>run\<close> delivers
  a sequence of events, each to the view of the state the previous one left.
\<close>

datatype ui_event = Click | KeyPress event | Blur event

definition deliver :: "'w note_props \<Rightarrow> ui_event \<Rightarrow> note_state \<times> 'w \<Rightarrow> note_state \<times> 'w" where
  "deliver props ev sw =
     (case render props (fst sw) of
        Input default_value selection_start on_blur on_key_press \<Rightarrow>
          (case ev of
             Click \<Rightarrow> sw
           | KeyPress e \<Rightarrow> on_key_press e sw
           | Blur e \<Rightarrow> on_blur e sw)
      | Clickable on_click text \<Rightarrow>
          (case ev of
             Click \<Rightarrow> on_click sw
           | KeyPress e \<Rightarrow> sw
           | Blur e \<Rightarrow> sw))"

fun run :: "'w note_props \<Rightarrow> ui_event list \<Rightarrow> note_state \<times> 'w \<Rightarrow> note_state \<times> 'w" where
  "run props [] sw = sw"
| "run props (ev # evs) sw = run props evs (deliver props ev sw)"

text \<open>
  The two events that finish an edit, a blur and a key press of Enter, and the value
  such an event carries.
\<close>

fun commits :: "ui_event \<Rightarrow> bool" where
  "commits Click = False"
| "commits (KeyPress e) = (key e = Some (utf16 ''Enter''))"
| "commits (Blur e) = True"

fun payload :: "ui_event \<Rightarrow> jsstring" where
  "payload Click = []"
| "payload (KeyPress e) = target_value e"
| "payload (Blur e) = target_value e"

text \<open>A callback that only records the values it is called with, in order.\<close>

definition record_call :: "jsstring \<Rightarrow> jsstring list \<Rightarrow> jsstring list" where
  "record_call v calls = calls @ [v]"

subsection \<open>Calls of \<open>Editable\<close>\<close>

text \<open>
  The props object that a call of \<open>Editable\<close> receives: the four props it destructures
  and the remaining ones.
\<close>

record ('p, 'e, 'v) editable_props =
  editing_p :: bool
  value_p :: jsstring
  onEdit_p :: 'e
  onValueClick_p :: 'v
  props_p :: 'p

text \<open>
  A call happens in surroundings that a JavaScript function could read and write: the
  further arguments that React passes, the variables of the module, the state of the
  mounted components. They are the memory \<open>'m\<close> of the call. The body of \<open>Editable\<close>
  names its destructured parameters and the module's constants \<open>Edit\<close> and \<open>Value\<close>,
  and it assigns to nothing: the call returns the element and the memory as it found
  it. \<open>Editable_calls\<close> is a sequence of calls, each in the memory the previous one
  left, as React makes them when it renders again and again.
\<close>

definition Editable_call ::
  "('p, 'e, 'v) editable_props \<Rightarrow> 'm \<Rightarrow> ('p, 'e, 'v) element \<times> 'm" where
  "Editable_call ps mem =
     (Editable (editing_p ps) (value_p ps) (onEdit_p ps) (onValueClick_p ps) (props_p ps),
      mem)"


subsection \<open>The Owner and its identifiers\<close>








section \<open>Activation\<close>

lemma length_activateNoteEdit: "length (activateNoteEdit i ns) = length ns"
  by (simp add: activateNoteEdit_def)

lemma nth_activateNoteEdit:
  "k < length ns \<Longrightarrow>
   activateNoteEdit i ns ! k =
     (if id_note (ns ! k) = i then (ns ! k)\<lparr>editing := True\<rparr> else ns ! k)"
  by (simp add: activateNoteEdit_def)

text \<open>
  Claim C3. For every position of the collection, \<open>activateNoteEdit i\<close> leaves the note
  there with its identifier and its task; its \<open>editing\<close> flag is \<open>True\<close> when the
  identifier is \<open>i\<close>, and the whole note is the one it was when the identifier differs.
\<close>

theorem activate_sets_editing_only:
  "length (activateNoteEdit i ns) = length ns \<and>
   (\<forall>k < length ns.
      id_note (activateNoteEdit i ns ! k) = id_note (ns ! k) \<and>
      task (activateNoteEdit i ns ! k) = task (ns ! k) \<and>
      (id_note (ns ! k) = i \<longrightarrow> editing (activateNoteEdit i ns ! k)) \<and>
      (id_note (ns ! k) \<noteq> i \<longrightarrow> activateNoteEdit i ns ! k = ns ! k))"
  by (simp add: length_activateNoteEdit nth_activateNoteEdit)

theorem activate_sets_editing_only_witness:
  "activateNoteEdit (1::nat)
     [\<lparr>id_note = 1, task = utf16 ''a'', editing = False\<rparr>,
      \<lparr>id_note = 2, task = utf16 ''b'', editing = False\<rparr>] ! 0
     = \<lparr>id_note = 1, task = utf16 ''a'', editing = True\<rparr> \<and>
   activateNoteEdit (1::nat)
     [\<lparr>id_note = 1, task = utf16 ''a'', editing = False\<rparr>,
      \<lparr>id_note = 2, task = utf16 ''b'', editing = False\<rparr>] ! 1
     = \<lparr>id_note = 2, task = utf16 ''b'', editing = False\<rparr>"
proof -
  let ?ns = "[\<lparr>id_note = (1::nat), task = utf16 ''a'', editing = False\<rparr>,
              \<lparr>id_note = 2, task = utf16 ''b'', editing = False\<rparr>]"
  have all: "\<forall>k < length ?ns.
      id_note (activateNoteEdit 1 ?ns ! k) = id_note (?ns ! k) \<and>
      task (activateNoteEdit 1 ?ns ! k) = task (?ns ! k) \<and>
      (id_note (?ns ! k) = 1 \<longrightarrow> editing (activateNoteEdit 1 ?ns ! k)) \<and>
      (id_note (?ns ! k) \<noteq> 1 \<longrightarrow> activateNoteEdit 1 ?ns ! k = ?ns ! k)"
    using activate_sets_editing_only [of 1 ?ns] by blast
  have k0: "id_note (activateNoteEdit 1 ?ns ! 0) = 1 \<and>
      task (activateNoteEdit 1 ?ns ! 0) = utf16 ''a'' \<and>
      editing (activateNoteEdit 1 ?ns ! 0)"
    using all by simp
  have k1: "activateNoteEdit 1 ?ns ! 1 = ?ns ! 1"
    using all by simp
  from k0 have "activateNoteEdit 1 ?ns ! 0 = \<lparr>id_note = 1, task = utf16 ''a'', editing = True\<rparr>"
    by (cases "activateNoteEdit 1 ?ns ! 0") simp
  with k1 show ?thesis by simp
qed

text \<open>
  Claim C10. When no note of the collection has the identifier, \<open>activateNoteEdit\<close>
  returns the collection as it was; and for every identifier the result has the same
  length, the same identifiers in the same order and the same tasks in the same order.
\<close>

theorem activate_unknown_id_noop_and_order:
  "((\<forall>n \<in> set ns. id_note n \<noteq> i) \<longrightarrow> activateNoteEdit i ns = ns) \<and>
   length (activateNoteEdit i ns) = length ns \<and>
   map id_note (activateNoteEdit i ns) = map id_note ns \<and>
   map task (activateNoteEdit i ns) = map task ns"
proof -
  have "(\<forall>n \<in> set ns. id_note n \<noteq> i) \<longrightarrow> activateNoteEdit i ns = ns"
    by (induction ns) (simp_all add: activateNoteEdit_def)
  moreover have "map id_note (activateNoteEdit i ns) = map id_note ns"
    by (induction ns) (simp_all add: activateNoteEdit_def)
  moreover have "map task (activateNoteEdit i ns) = map task ns"
    by (induction ns) (simp_all add: activateNoteEdit_def)
  ultimately show ?thesis
    by (simp add: length_activateNoteEdit)
qed

theorem activate_unknown_id_noop_and_order_witness:
  "activateNoteEdit (3::nat)
     [\<lparr>id_note = 1, task = utf16 ''a'', editing = False\<rparr>,
      \<lparr>id_note = 2, task = utf16 ''b'', editing = True\<rparr>]
   = [\<lparr>id_note = 1, task = utf16 ''a'', editing = False\<rparr>,
      \<lparr>id_note = 2, task = utf16 ''b'', editing = True\<rparr>]"
  using activate_unknown_id_noop_and_order
    [of "[\<lparr>id_note = (1::nat), task = utf16 ''a'', editing = False\<rparr>,
          \<lparr>id_note = 2, task = utf16 ''b'', editing = True\<rparr>]" 3]
  by simp

section \<open>Committing a value\<close>

lemma trim_Nil: "trim [] = []"
  by (simp add: trim_def)

lemma truthy_trim_imp_truthy: "truthy (trim t) \<Longrightarrow> truthy t"
  by (cases t) (simp_all add: truthy_def trim_Nil)

lemma editNote_blank: "trim t = [] \<Longrightarrow> editNote i t ns = ns"
  by (simp add: editNote_def truthy_def)

lemma editNote_nonblank:
  "trim t \<noteq> [] \<Longrightarrow>
   editNote i t ns = map (\<lambda>n. if id_note n = i then n\<lparr>task := t\<rparr> else n) ns"
  using truthy_trim_imp_truthy [of t] by (simp add: editNote_def truthy_def)

lemma length_editNote: "length (editNote i t ns) = length ns"
  by (simp add: editNote_def)

lemma length_editNote_tracking: "length (editNote_tracking i t ns) = length ns"
  by (simp add: editNote_tracking_def)

lemma nth_editNote_tracking:
  "k < length ns \<Longrightarrow>
   editNote_tracking i t ns ! k =
     (if id_note (ns ! k) = i then (ns ! k)\<lparr>editing := False\<rparr> else ns ! k)"
  by (simp add: editNote_tracking_def)


lemma ids_editNote_tracking: "map id_note (editNote_tracking i t ns) = map id_note ns"
  by (induction ns) (simp_all add: editNote_tracking_def)


lemma map_unknown_id:
  "\<forall>n \<in> set ns. id_note n \<noteq> i \<Longrightarrow> map (\<lambda>n. if id_note n = i then f n else n) ns = ns"
  by (induction ns) simp_all

lemma edited_empty: "edited acts i [] = remove acts i"
  by (simp add: edited_def truthy_def)

lemma edited_nonempty: "v \<noteq> [] \<Longrightarrow> edited acts i v = update acts i v"
  by (simp add: edited_def truthy_def)

lemma trim_two_spaces: "trim (utf16 ''  '') = []"
  by (simp add: trim_def utf16_def isWhiteSpace_def)

text \<open>
  Claim C2, as the code has it. When the value is not blank after trimming, the
  \<open>editNote\<close> of lines 383 to 398 stores the value exactly as it is given, untrimmed,
  in every note with the identifier and keeps that note's \<open>editing\<close> flag; the
  \<open>editNote\<close> of lines 221 to 231 resets the flag of that note and keeps its task. Each
  returns every other note as it was, at the same position.
\<close>

theorem commit_stores_value_as_given:
  "trim v \<noteq> [] \<Longrightarrow>
   length (editNote i v ns) = length ns \<and>
   (\<forall>k < length ns.
      (id_note (ns ! k) = i \<longrightarrow> editNote i v ns ! k = (ns ! k)\<lparr>task := v\<rparr>) \<and>
      (id_note (ns ! k) \<noteq> i \<longrightarrow> editNote i v ns ! k = ns ! k)) \<and>
   length (editNote_tracking i v ns) = length ns \<and>
   (\<forall>k < length ns.
      (id_note (ns ! k) = i \<longrightarrow>
         editNote_tracking i v ns ! k = (ns ! k)\<lparr>editing := False\<rparr>) \<and>
      (id_note (ns ! k) \<noteq> i \<longrightarrow> editNote_tracking i v ns ! k = ns ! k))"
  by (simp add: editNote_nonblank nth_editNote_tracking length_editNote_tracking)

theorem commit_stores_value_as_given_witness:
  "trim (utf16 '' aa '') \<noteq> [] \<and>
   editNote (1::nat) (utf16 '' aa '')
     [\<lparr>id_note = 1, task = utf16 ''a'', editing = True\<rparr>,
      \<lparr>id_note = 2, task = utf16 ''b'', editing = False\<rparr>] ! 0
     = \<lparr>id_note = 1, task = utf16 '' aa '', editing = True\<rparr> \<and>
   editNote_tracking (1::nat) (utf16 '' aa '')
     [\<lparr>id_note = 1, task = utf16 ''a'', editing = True\<rparr>,
      \<lparr>id_note = 2, task = utf16 ''b'', editing = False\<rparr>] ! 0
     = \<lparr>id_note = 1, task = utf16 ''a'', editing = False\<rparr>"
proof -
  let ?ns = "[\<lparr>id_note = (1::nat), task = utf16 ''a'', editing = True\<rparr>,
              \<lparr>id_note = 2, task = utf16 ''b'', editing = False\<rparr>]"
  have nonblank: "trim (utf16 '' aa '') \<noteq> []"
    by (simp add: trim_def utf16_def isWhiteSpace_def)
  note facts = commit_stores_value_as_given [OF nonblank, of 1 ?ns]
  have "editNote 1 (utf16 '' aa '') ?ns ! 0 = (?ns ! 0)\<lparr>task := utf16 '' aa ''\<rparr>"
    using facts by simp
  moreover have "editNote_tracking 1 (utf16 '' aa '') ?ns ! 0 = (?ns ! 0)\<lparr>editing := False\<rparr>"
    using facts by simp
  ultimately show ?thesis
    using nonblank by simp
qed

text \<open>
  The claim C2 as it is written fails: committing \<open>'' aa ''\<close> for note 1, which is being
  edited, does not give note 1 the trimmed value \<open>''aa''\<close> with \<open>editing\<close> reset. The
  value handler stores the untrimmed value and keeps the flag, the flag handler keeps
  the old value, and the two one after the other store the untrimmed value.
\<close>

theorem commit_trimmed_value_counterexample:
  "trim (utf16 '' aa '') = utf16 ''aa'' \<and>
   editNote (1::nat) (utf16 '' aa '')
     [\<lparr>id_note = 1, task = utf16 ''a'', editing = True\<rparr>,
      \<lparr>id_note = 2, task = utf16 ''b'', editing = False\<rparr>]
     \<noteq> [\<lparr>id_note = 1, task = utf16 ''aa'', editing = False\<rparr>,
        \<lparr>id_note = 2, task = utf16 ''b'', editing = False\<rparr>] \<and>
   editNote_tracking (1::nat) (utf16 '' aa '')
     [\<lparr>id_note = 1, task = utf16 ''a'', editing = True\<rparr>,
      \<lparr>id_note = 2, task = utf16 ''b'', editing = False\<rparr>]
     \<noteq> [\<lparr>id_note = 1, task = utf16 ''aa'', editing = False\<rparr>,
        \<lparr>id_note = 2, task = utf16 ''b'', editing = False\<rparr>] \<and>
   editNote_tracking (1::nat) (utf16 '' aa '')
     (editNote 1 (utf16 '' aa '')
        [\<lparr>id_note = 1, task = utf16 ''a'', editing = True\<rparr>,
         \<lparr>id_note = 2, task = utf16 ''b'', editing = False\<rparr>])
     = [\<lparr>id_note = 1, task = utf16 '' aa '', editing = False\<rparr>,
        \<lparr>id_note = 2, task = utf16 ''b'', editing = False\<rparr>] \<and>
   utf16 '' aa '' \<noteq> utf16 ''aa''"
  by (simp add: editNote_def editNote_tracking_def truthy_def trim_def utf16_def
      isWhiteSpace_def)

text \<open>
  Claim C1, as the code has it. A value that is empty or blank after trimming removes
  nothing in \<open>App\<close>: the \<open>editNote\<close> of lines 383 to 398 returns early and leaves the
  whole collection as it was, and the \<open>editNote\<close> of lines 221 to 231 keeps every
  identifier in place. \<open>Lane.edited\<close> calls \<open>remove\<close> for the empty string only; a blank
  value that is not empty goes to \<open>update\<close>, as given.
\<close>

theorem blank_commit_keeps_item:
  "trim v = [] \<Longrightarrow>
   editNote i v ns = ns \<and>
   map id_note (editNote_tracking i v ns) = map id_note ns \<and>
   (v = [] \<longrightarrow> edited acts i v = remove acts i) \<and>
   (v \<noteq> [] \<longrightarrow> edited acts i v = update acts i v)"
  by (simp add: editNote_blank ids_editNote_tracking edited_empty edited_nonempty)

theorem blank_commit_keeps_item_witness:
  "trim (utf16 ''  '') = [] \<and>
   editNote (2::nat) (utf16 ''  '')
     [\<lparr>id_note = 1, task = utf16 ''aa'', editing = False\<rparr>,
      \<lparr>id_note = 2, task = utf16 ''b'', editing = True\<rparr>]
     = [\<lparr>id_note = 1, task = utf16 ''aa'', editing = False\<rparr>,
        \<lparr>id_note = 2, task = utf16 ''b'', editing = True\<rparr>] \<and>
   edited recording (2::nat) (utf16 ''  '') [] = [Update 2 (utf16 ''  '')] \<and>
   edited recording (2::nat) [] [] = [Remove 2]"
proof -
  let ?ns = "[\<lparr>id_note = (1::nat), task = utf16 ''aa'', editing = False\<rparr>,
              \<lparr>id_note = 2, task = utf16 ''b'', editing = True\<rparr>]"
  have blank: "trim (utf16 ''  '') = []"
    by (rule trim_two_spaces)
  note spaces = blank_commit_keeps_item
    [OF blank, where i = 2 and ns = ?ns and acts = recording]
  note empty = blank_commit_keeps_item
    [OF trim_Nil, where i = 2 and ns = ?ns and acts = recording]
  have "editNote 2 (utf16 ''  '') ?ns = ?ns"
    using spaces by simp
  moreover have "edited recording (2::nat) (utf16 ''  '') [] = [Update 2 (utf16 ''  '')]"
    using spaces by (simp add: utf16_def recording_def)
  moreover have "edited recording (2::nat) [] [] = [Remove 2]"
    using empty by (simp add: recording_def)
  ultimately show ?thesis
    using blank by simp
qed

text \<open>
  The claim C1 as it is written fails: with note 2 being edited, committing two spaces
  for it does not leave the collection without note 2. \<open>editNote\<close> returns the
  collection with both notes, the flag handler returns both notes, and \<open>Lane.edited\<close>
  dispatches an update, not a removal. Committing the empty string to \<open>editNote\<close>
  keeps note 2 as well.
\<close>

theorem blank_commit_removes_counterexample:
  "trim (utf16 ''  '') = [] \<and>
   editNote (2::nat) (utf16 ''  '')
     [\<lparr>id_note = 1, task = utf16 ''aa'', editing = False\<rparr>,
      \<lparr>id_note = 2, task = utf16 ''b'', editing = True\<rparr>]
     \<noteq> [\<lparr>id_note = 1, task = utf16 ''aa'', editing = False\<rparr>] \<and>
   editNote_tracking (2::nat) (utf16 ''  '')
     [\<lparr>id_note = 1, task = utf16 ''aa'', editing = False\<rparr>,
      \<lparr>id_note = 2, task = utf16 ''b'', editing = True\<rparr>]
     \<noteq> [\<lparr>id_note = 1, task = utf16 ''aa'', editing = False\<rparr>] \<and>
   edited recording (2::nat) (utf16 ''  '') [] \<noteq> [Remove 2] \<and>
   editNote (2::nat) []
     [\<lparr>id_note = 1, task = utf16 ''aa'', editing = False\<rparr>,
      \<lparr>id_note = 2, task = utf16 ''b'', editing = True\<rparr>]
     \<noteq> [\<lparr>id_note = 1, task = utf16 ''aa'', editing = False\<rparr>]"
  by (simp add: editNote_def editNote_tracking_def edited_def recording_def truthy_def
      trim_def utf16_def isWhiteSpace_def)

section \<open>Unknown identifiers\<close>

lemma owner_remove_unknown:
  "\<forall>n \<in> set ns. id_note n \<noteq> i \<Longrightarrow> owner_remove i ns = ns"
  by (simp add: owner_remove_def)

lemma editNote_unknown:
  "\<forall>n \<in> set ns. id_note n \<noteq> i \<Longrightarrow> editNote i v ns = ns"
proof (cases "trim v = []")
  case True
  then show ?thesis by (rule editNote_blank)
next
  case False
  assume "\<forall>n \<in> set ns. id_note n \<noteq> i"
  then show ?thesis
    using False by (simp add: editNote_nonblank map_unknown_id)
qed

lemma editNote_tracking_unknown:
  "\<forall>n \<in> set ns. id_note n \<noteq> i \<Longrightarrow> editNote_tracking i v ns = ns"
  by (simp add: editNote_tracking_def map_unknown_id)

text \<open>
  Claim C5. When no note of the collection has the identifier, both \<open>editNote\<close>
  handlers return the collection as it was, whatever the value, and so does the
  removal. The functions are total: there is no branch that raises.
\<close>

theorem unknown_id_commit_remove_noop:
  "\<forall>n \<in> set ns. id_note n \<noteq> i \<Longrightarrow>
   editNote i v ns = ns \<and> editNote_tracking i v ns = ns \<and> owner_remove i ns = ns"
  by (simp add: editNote_unknown editNote_tracking_unknown owner_remove_unknown)

theorem unknown_id_commit_remove_noop_witness:
  "editNote (7::nat) (utf16 ''x'')
     [\<lparr>id_note = 1, task = utf16 ''a'', editing = True\<rparr>,
      \<lparr>id_note = 2, task = utf16 ''b'', editing = False\<rparr>]
     = [\<lparr>id_note = 1, task = utf16 ''a'', editing = True\<rparr>,
        \<lparr>id_note = 2, task = utf16 ''b'', editing = False\<rparr>] \<and>
   editNote_tracking (7::nat) (utf16 ''x'')
     [\<lparr>id_note = 1, task = utf16 ''a'', editing = True\<rparr>,
      \<lparr>id_note = 2, task = utf16 ''b'', editing = False\<rparr>]
     = [\<lparr>id_note = 1, task = utf16 ''a'', editing = True\<rparr>,
        \<lparr>id_note = 2, task = utf16 ''b'', editing = False\<rparr>] \<and>
   owner_remove (7::nat)
     [\<lparr>id_note = 1, task = utf16 ''a'', editing = True\<rparr>,
      \<lparr>id_note = 2, task = utf16 ''b'', editing = False\<rparr>]
     = [\<lparr>id_note = 1, task = utf16 ''a'', editing = True\<rparr>,
        \<lparr>id_note = 2, task = utf16 ''b'', editing = False\<rparr>]"
proof -
  let ?ns = "[\<lparr>id_note = (1::nat), task = utf16 ''a'', editing = True\<rparr>,
              \<lparr>id_note = 2, task = utf16 ''b'', editing = False\<rparr>]"
  have unknown: "\<forall>n \<in> set ?ns. id_note n \<noteq> 7"
    by simp
  show ?thesis
    using unknown_id_commit_remove_noop [OF unknown, of "utf16 ''x''"] by simp
qed

section \<open>The commit handler of \<open>Lane\<close>\<close>

text \<open>
  Claim C9. \<open>Lane.edited\<close> decides on the value as it is given: it dispatches a removal
  exactly when the value is the empty string, and for every other value, blank or not,
  it dispatches an update that carries the value untrimmed. The same holds for every
  actions object it is handed.
\<close>

theorem edited_decides_on_raw_value:
  "(edited recording i v log = log @ [Remove i] \<longleftrightarrow> v = []) \<and>
   (v \<noteq> [] \<longrightarrow> edited recording i v log = log @ [Update i v]) \<and>
   (v = [] \<longrightarrow> edited acts i v = remove acts i) \<and>
   (v \<noteq> [] \<longrightarrow> edited acts i v = update acts i v)"
  by (simp add: edited_def truthy_def recording_def)

theorem edited_decides_on_raw_value_witness:
  "utf16 ''  '' \<noteq> [] \<and> trim (utf16 ''  '') = [] \<and>
   edited recording (2::nat) (utf16 ''  '') [] = [Update 2 (utf16 ''  '')] \<and>
   edited recording (2::nat) (utf16 ''  '') [] \<noteq> [Remove 2]"
proof -
  have nonempty: "utf16 ''  '' \<noteq> []"
    by (simp add: utf16_def)
  note facts = edited_decides_on_raw_value
    [where i = "2::nat" and v = "utf16 ''  ''" and log = "[]" and acts = recording]
  have "edited recording (2::nat) (utf16 ''  '') [] = [Update 2 (utf16 ''  '')]"
    using facts [THEN conjunct2, THEN conjunct1] nonempty by simp
  moreover have "edited recording (2::nat) (utf16 ''  '') [] \<noteq> [Remove 2]"
    using facts [THEN conjunct1] nonempty by simp
  ultimately show ?thesis
    using nonempty trim_two_spaces by simp
qed

section \<open>The scenario\<close>

text \<open>
  Claim C4, as the code has it. From the two notes \<open>a\<close> and \<open>b\<close>, activating note 1 sets
  its flag. Committing \<open>aa\<close> for note 1 stores the value (lines 383 to 398, flag kept)
  and resets the flag (lines 221 to 231, value kept); both together give the second
  state of the claim. Activating note 2 sets its flag. Committing two spaces for
  note 2 removes nothing: the value handler returns the collection as it is, and the
  flag handler gives both notes with the flags reset.
\<close>

theorem scenario_as_coded:
  "activateNoteEdit (1::nat)
     [\<lparr>id_note = 1, task = utf16 ''a'', editing = False\<rparr>,
      \<lparr>id_note = 2, task = utf16 ''b'', editing = False\<rparr>]
     = [\<lparr>id_note = 1, task = utf16 ''a'', editing = True\<rparr>,
        \<lparr>id_note = 2, task = utf16 ''b'', editing = False\<rparr>] \<and>
   editNote (1::nat) (utf16 ''aa'')
     [\<lparr>id_note = 1, task = utf16 ''a'', editing = True\<rparr>,
      \<lparr>id_note = 2, task = utf16 ''b'', editing = False\<rparr>]
     = [\<lparr>id_note = 1, task = utf16 ''aa'', editing = True\<rparr>,
        \<lparr>id_note = 2, task = utf16 ''b'', editing = False\<rparr>] \<and>
   editNote_tracking (1::nat) (utf16 ''aa'')
     [\<lparr>id_note = 1, task = utf16 ''aa'', editing = True\<rparr>,
      \<lparr>id_note = 2, task = utf16 ''b'', editing = False\<rparr>]
     = [\<lparr>id_note = 1, task = utf16 ''aa'', editing = False\<rparr>,
        \<lparr>id_note = 2, task = utf16 ''b'', editing = False\<rparr>] \<and>
   activateNoteEdit (2::nat)
     [\<lparr>id_note = 1, task = utf16 ''aa'', editing = False\<rparr>,
      \<lparr>id_note = 2, task = utf16 ''b'', editing = False\<rparr>]
     = [\<lparr>id_note = 1, task = utf16 ''aa'', editing = False\<rparr>,
        \<lparr>id_note = 2, task = utf16 ''b'', editing = True\<rparr>] \<and>
   editNote (2::nat) (utf16 ''  '')
     [\<lparr>id_note = 1, task = utf16 ''aa'', editing = False\<rparr>,
      \<lparr>id_note = 2, task = utf16 ''b'', editing = True\<rparr>]
     = [\<lparr>id_note = 1, task = utf16 ''aa'', editing = False\<rparr>,
        \<lparr>id_note = 2, task = utf16 ''b'', editing = True\<rparr>] \<and>
   editNote_tracking (2::nat) (utf16 ''  '')
     [\<lparr>id_note = 1, task = utf16 ''aa'', editing = False\<rparr>,
      \<lparr>id_note = 2, task = utf16 ''b'', editing = True\<rparr>]
     = [\<lparr>id_note = 1, task = utf16 ''aa'', editing = False\<rparr>,
        \<lparr>id_note = 2, task = utf16 ''b'', editing = False\<rparr>]"
  by (simp add: activateNoteEdit_def editNote_def editNote_tracking_def truthy_def
      trim_def utf16_def isWhiteSpace_def)

text \<open>
  The claim C4 as it is written fails at its last step, and at its second step for each
  handler taken alone. After the whole sequence, with the commit read as the value
  handler, as the flag handler, or as the one after the other, the collection is not
  the single note 1; and \<open>Lane.edited\<close> asks for an update of note 2, not for its
  removal. Committing \<open>aa\<close> with the value handler alone leaves the flag of note 1 set.
\<close>

theorem scenario_final_state_counterexample:
  "editNote (2::nat) (utf16 ''  '')
     (activateNoteEdit 2
        (editNote 1 (utf16 ''aa'')
           (activateNoteEdit 1
              [\<lparr>id_note = 1, task = utf16 ''a'', editing = False\<rparr>,
               \<lparr>id_note = 2, task = utf16 ''b'', editing = False\<rparr>])))
     \<noteq> [\<lparr>id_note = 1, task = utf16 ''aa'', editing = False\<rparr>] \<and>
   editNote_tracking (2::nat) (utf16 ''  '')
     (activateNoteEdit 2
        (editNote_tracking 1 (utf16 ''aa'')
           (activateNoteEdit 1
              [\<lparr>id_note = 1, task = utf16 ''a'', editing = False\<rparr>,
               \<lparr>id_note = 2, task = utf16 ''b'', editing = False\<rparr>])))
     \<noteq> [\<lparr>id_note = 1, task = utf16 ''aa'', editing = False\<rparr>] \<and>
   editNote_tracking (2::nat) (utf16 ''  '')
     (editNote 2 (utf16 ''  '')
        (activateNoteEdit 2
           (editNote_tracking 1 (utf16 ''aa'')
              (editNote 1 (utf16 ''aa'')
                 (activateNoteEdit 1
                    [\<lparr>id_note = 1, task = utf16 ''a'', editing = False\<rparr>,
                     \<lparr>id_note = 2, task = utf16 ''b'', editing = False\<rparr>])))))
     \<noteq> [\<lparr>id_note = 1, task = utf16 ''aa'', editing = False\<rparr>] \<and>
   edited recording (2::nat) (utf16 ''  '') [] \<noteq> [Remove 2] \<and>
   editNote (1::nat) (utf16 ''aa'')
     (activateNoteEdit 1
        [\<lparr>id_note = 1, task = utf16 ''a'', editing = False\<rparr>,
         \<lparr>id_note = 2, task = utf16 ''b'', editing = False\<rparr>])
     \<noteq> [\<lparr>id_note = 1, task = utf16 ''aa'', editing = False\<rparr>,
        \<lparr>id_note = 2, task = utf16 ''b'', editing = False\<rparr>]"
  by (simp add: activateNoteEdit_def editNote_def editNote_tracking_def edited_def
      recording_def truthy_def trim_def utf16_def isWhiteSpace_def)

section \<open>Unique identifiers\<close>

lemma ids_owner_add: "map id_note (owner_add new_id t ns) = map id_note ns @ [new_id]"
  by (simp add: owner_add_def)










section \<open>\<open>Editable\<close> keeps no state\<close>

lemma Editable_call_element:
  "fst (Editable_call ps mem) =
     Div (props_p ps)
       (if editing_p ps then Edit (value_p ps) (onEdit_p ps)
        else Value (value_p ps) (onValueClick_p ps))"
  by (simp add: Editable_call_def Editable_def)




text \<open>
  The class component \<open>Note\<close> of the same chapter is the contrast: with the same props
  it renders the input or the \<open>div\<close>, as its own state says.
\<close>

lemma Note_view_depends_on_state:
  "render props \<lparr>editing_st = True\<rparr> \<noteq> render props \<lparr>editing_st = False\<rparr>"
  by (simp add: render_def renderEdit_def renderNote_def)



section \<open>One commit for each edit session of \<open>Note\<close>\<close>

lemma run_append: "run props (xs @ ys) sw = run props ys (run props xs sw)"
  by (induction xs arbitrary: sw) simp_all

lemma deliver_viewing:
  "\<not> editing_st (fst sw) \<Longrightarrow> ev \<noteq> Click \<Longrightarrow> deliver props ev sw = sw"
  by (cases ev) (simp_all add: deliver_def render_def renderNote_def)

lemma deliver_editing_other:
  "editing_st (fst sw) \<Longrightarrow> \<not> commits ev \<Longrightarrow> deliver props ev sw = sw"
  by (cases ev) (simp_all add: deliver_def render_def renderEdit_def checkEnter_def)

lemma deliver_editing_commit:
  "onEdit props = Some callback \<Longrightarrow> editing_st (fst sw) \<Longrightarrow> commits ev \<Longrightarrow>
   deliver props ev sw = ((fst sw)\<lparr>editing_st := False\<rparr>, callback (payload ev) (snd sw))"
  by (cases ev)
    (simp_all add: deliver_def render_def renderEdit_def checkEnter_def finishEdit_def)

lemma run_viewing: "\<not> editing_st (fst sw) \<Longrightarrow> Click \<notin> set evs \<Longrightarrow> run props evs sw = sw"
proof (induction evs)
  case Nil
  show ?case by simp
next
  case (Cons ev evs)
  from Cons.prems have "deliver props ev sw = sw"
    by (auto intro: deliver_viewing)
  with Cons show ?case by simp
qed

lemma run_editing_other:
  "editing_st (fst sw) \<Longrightarrow> \<forall>ev \<in> set evs. \<not> commits ev \<Longrightarrow> run props evs sw = sw"
  by (induction evs) (simp_all add: deliver_editing_other)

text \<open>
  The handler itself keeps no record of a commit: called twice, \<open>finishEdit\<close> calls the
  callback twice. What ends the session is the state it leaves, under which \<open>render\<close>
  no longer returns the input.
\<close>

lemma finishEdit_twice:
  "onEdit props = Some callback \<Longrightarrow>
   snd (finishEdit props e2 (finishEdit props e1 sw))
     = callback (target_value e2) (callback (target_value e1) (snd sw))"
  by (simp add: finishEdit_def)

lemma render_after_finishEdit:
  "onEdit props = Some callback \<Longrightarrow>
   render props (fst (finishEdit props e sw)) = renderNote props"
  by (simp add: finishEdit_def render_def)

text \<open>
  Claim C6. An edit session starts with the input rendered (\<open>editing\<close> set) and a
  callback supplied. While no blur and no Enter arrives nothing is committed; the first
  blur or Enter calls the callback once, with the value of that event, and leaves edit
  mode; whatever blur or key press follows, as long as no click opens a new session,
  reaches no handler, so the callback has been applied exactly once.
\<close>

theorem one_commit_per_session:
  "onEdit props = Some callback \<Longrightarrow> editing_st st \<Longrightarrow>
   \<forall>e \<in> set before. \<not> commits e \<Longrightarrow> commits ev \<Longrightarrow> Click \<notin> set after \<Longrightarrow>
   run props (before @ ev # after) (st, w)
     = (st\<lparr>editing_st := False\<rparr>, callback (payload ev) w)"
proof -
  assume cb: "onEdit props = Some callback" and ed: "editing_st st"
    and quiet: "\<forall>e \<in> set before. \<not> commits e" and commit: "commits ev"
    and no_click: "Click \<notin> set after"
  have "run props before (st, w) = (st, w)"
    using ed quiet by (simp add: run_editing_other)
  moreover have "deliver props ev (st, w) = (st\<lparr>editing_st := False\<rparr>, callback (payload ev) w)"
    using cb ed commit deliver_editing_commit [of props callback "(st, w)" ev] by simp
  moreover have "run props after (st\<lparr>editing_st := False\<rparr>, callback (payload ev) w)
      = (st\<lparr>editing_st := False\<rparr>, callback (payload ev) w)"
    using no_click by (simp add: run_viewing)
  ultimately show ?thesis
    by (simp add: run_append)
qed

theorem one_commit_per_session_witness:
  "run \<lparr>task_prop = utf16 ''a'', onEdit = Some record_call\<rparr>
     ([KeyPress \<lparr>key = Some (utf16 ''x''), target_value = utf16 ''a''\<rparr>]
      @ KeyPress \<lparr>key = Some (utf16 ''Enter''), target_value = utf16 ''ax''\<rparr>
      # [Blur \<lparr>key = None, target_value = utf16 ''ax''\<rparr>])
     (\<lparr>editing_st = True\<rparr>, [])
   = (\<lparr>editing_st = False\<rparr>, [utf16 ''ax''])"
proof -
  let ?props = "\<lparr>task_prop = utf16 ''a'', onEdit = Some record_call\<rparr>"
  let ?before = "[KeyPress \<lparr>key = Some (utf16 ''x''), target_value = utf16 ''a''\<rparr>]"
  let ?enter = "KeyPress \<lparr>key = Some (utf16 ''Enter''), target_value = utf16 ''ax''\<rparr>"
  let ?after = "[Blur \<lparr>key = None, target_value = utf16 ''ax''\<rparr>]"
  have cb: "onEdit ?props = Some record_call"
    by simp
  have ed: "editing_st \<lparr>editing_st = True\<rparr>"
    by simp
  have quiet: "\<forall>e \<in> set ?before. \<not> commits e"
    by (simp add: utf16_def)
  have commit: "commits ?enter"
    by simp
  have no_click: "Click \<notin> set ?after"
    by simp
  show ?thesis
    using one_commit_per_session [OF cb ed quiet commit no_click, of "[]"]
    by (simp add: record_call_def)
qed

end
